theory Spec2Isabelle
  imports Complex_Main "HOL-Library.Char_ord" "HOL-Library.List_Lexorder"
    "HOL-Library.Product_Lexorder"
begin

section \<open>The Python values the program computes with\<close>

text \<open>
  The exceptions that the modelled code can raise. \<open>HTTPException\<close> carries its status
  code; the detail message is not modelled. \<open>RequestException\<close> stands for whatever the
  HTTP exchange with the Graph API raises (transport, status, decoding).
\<close>

datatype exn =
    ValueError
  | TypeError
  | OverflowError
  | ZeroDivisionError
  | RequestException
  | HTTPException nat

text \<open>
  A Python float. The finite values are modelled by the real number they denote, so
  rounding and overflow of IEEE doubles are outside the model; the two infinities and
  NaN, which \<open>float()\<close> accepts in a string, are values of their own.
\<close>

datatype pyfloat = Fin real | PosInf | NegInf | NaN

text \<open>The scalar values a JSON field handed to \<open>float()\<close> can hold.\<close>

datatype pyval = PyNone | PyBool bool | PyInt int | PyFloat pyfloat | PyStr string

subsection \<open>\<open>float(str)\<close>\<close>

text \<open>
  Python's grammar for the argument of \<open>float\<close>, on ASCII strings: surrounding
  whitespace is stripped, then an optional sign, then \<open>inf\<close>, \<open>infinity\<close> or
  \<open>nan\<close> in any case, or a decimal number with an optional exponent, where single
  underscores may separate digits.
\<close>

definition is_space :: "char \<Rightarrow> bool" where
  "is_space c = (c \<in> set [CHR 0x09, CHR 0x0A, CHR 0x0B, CHR 0x0C, CHR 0x0D, CHR '' ''])"

definition strip :: "string \<Rightarrow> string" where
  "strip s = rev (dropWhile is_space (rev (dropWhile is_space s)))"

definition is_digit :: "char \<Rightarrow> bool" where
  "is_digit c = (c \<in> set ''0123456789'')"

definition digit_val :: "char \<Rightarrow> nat" where
  "digit_val c = of_char c - 48"

definition nat_of_digits :: "string \<Rightarrow> nat" where
  "nat_of_digits ds = foldl (\<lambda>a c. 10 * a + digit_val c) 0 ds"

definition lower :: "char \<Rightarrow> char" where
  "lower c = (if c \<in> set ''ABCDEFGHIJKLMNOPQRSTUVWXYZ''
              then char_of (of_char c + (32::nat)) else c)"

text \<open>
  \<open>digitpart_rest\<close> reads \<open>(["_"] digit)*\<close> after a first digit, and \<open>digitpart\<close>
  reads \<open>digit (["_"] digit)*\<close>; both return the digits read and the rest of the
  string, with no digits when the string does not start with a digit part.
\<close>

fun digitpart_rest :: "string \<Rightarrow> string \<times> string" where
  "digitpart_rest [] = ([], [])"
| "digitpart_rest [c] = (if is_digit c then ([c], []) else ([], [c]))"
| "digitpart_rest (c # d # cs) =
     (if is_digit c then (case digitpart_rest (d # cs) of (ds, r) \<Rightarrow> (c # ds, r))
      else if c = CHR ''_'' \<and> is_digit d
        then (case digitpart_rest cs of (ds, r) \<Rightarrow> (d # ds, r))
      else ([], c # d # cs))"

definition digitpart :: "string \<Rightarrow> string \<times> string" where
  "digitpart s =
     (case s of
        [] \<Rightarrow> ([], [])
      | c # cs \<Rightarrow>
          if is_digit c then (case digitpart_rest cs of (ds, r) \<Rightarrow> (c # ds, r))
          else ([], s))"

text \<open>\<open>number ::= [digitpart] "." digitpart | digitpart ["."]\<close>\<close>

definition parse_number :: "string \<Rightarrow> (string \<times> string \<times> string) option" where
  "parse_number s =
     (case digitpart s of (ip, r1) \<Rightarrow>
        (case r1 of
           c # r2 \<Rightarrow>
             if c = CHR ''.''
             then (case digitpart r2 of (fp, r3) \<Rightarrow>
                     if ip = [] \<and> fp = [] then None else Some (ip, fp, r3))
             else if ip = [] then None else Some (ip, [], r1)
         | [] \<Rightarrow> if ip = [] then None else Some (ip, [], r1)))"

text \<open>\<open>exponent ::= ("e" | "E") [sign] digitpart\<close>, up to the end of the string.\<close>

definition parse_exponent :: "string \<Rightarrow> int option" where
  "parse_exponent s =
     (case s of
        [] \<Rightarrow> Some 0
      | c # r \<Rightarrow>
          if c = CHR ''e'' \<or> c = CHR ''E''
          then (let (neg, body) =
                      (case r of
                         [] \<Rightarrow> (False, r)
                       | x # r' \<Rightarrow>
                           if x = CHR ''-'' then (True, r')
                           else if x = CHR ''+'' then (False, r')
                           else (False, r))
                in case digitpart body of (ds, rest) \<Rightarrow>
                     if ds = [] \<or> rest \<noteq> [] then None
                     else Some (if neg then - int (nat_of_digits ds) else int (nat_of_digits ds)))
          else None)"

definition scale10 :: "real \<Rightarrow> int \<Rightarrow> real" where
  "scale10 m k = (if 0 \<le> k then m * 10 ^ nat k else m / 10 ^ nat (- k))"

definition float_of_str :: "string \<Rightarrow> exn + pyfloat" where
  "float_of_str s =
     (let t = strip s;
          (neg, body) =
            (case t of
               [] \<Rightarrow> (False, t)
             | x # r \<Rightarrow>
                 if x = CHR ''-'' then (True, r)
                 else if x = CHR ''+'' then (False, r)
                 else (False, t))
      in if map lower body = ''inf'' \<or> map lower body = ''infinity''
           then Inr (if neg then NegInf else PosInf)
         else if map lower body = ''nan'' then Inr NaN
         else (case parse_number body of
                 None \<Rightarrow> Inl ValueError
               | Some (ip, fp, rest) \<Rightarrow>
                   (case parse_exponent rest of
                      None \<Rightarrow> Inl ValueError
                    | Some e \<Rightarrow>
                        (let m = scale10 (real (nat_of_digits (ip @ fp))) (e - int (length fp))
                         in Inr (Fin (if neg then - m else m))))))"

subsection \<open>\<open>float(x)\<close>, \<open>int(x)\<close> and float arithmetic\<close>

fun py_float :: "pyval \<Rightarrow> exn + pyfloat" where
  "py_float PyNone = Inl TypeError"
| "py_float (PyBool b) = Inr (Fin (if b then 1 else 0))"
| "py_float (PyInt n) = Inr (Fin (real_of_int n))"
| "py_float (PyFloat f) = Inr f"
| "py_float (PyStr s) = float_of_str s"

text \<open>\<open>int(f)\<close> truncates towards zero and raises on NaN and on the infinities.\<close>

fun py_int :: "pyfloat \<Rightarrow> exn + int" where
  "py_int (Fin r) = Inr (if 0 \<le> r then \<lfloor>r\<rfloor> else \<lceil>r\<rceil>)"
| "py_int NaN = Inl ValueError"
| "py_int PosInf = Inl OverflowError"
| "py_int NegInf = Inl OverflowError"

text \<open>\<open>a - b\<close> on floats.\<close>

fun float_sub :: "pyfloat \<Rightarrow> pyfloat \<Rightarrow> pyfloat" where
  "float_sub (Fin a) (Fin b) = Fin (a - b)"
| "float_sub NaN _ = NaN"
| "float_sub _ NaN = NaN"
| "float_sub PosInf PosInf = NaN"
| "float_sub NegInf NegInf = NaN"
| "float_sub PosInf _ = PosInf"
| "float_sub NegInf _ = NegInf"
| "float_sub (Fin a) PosInf = NegInf"
| "float_sub (Fin a) NegInf = PosInf"

text \<open>\<open>a / n\<close> for a float \<open>a\<close> and an int \<open>n\<close>: a zero divisor raises.\<close>

definition float_truediv :: "pyfloat \<Rightarrow> int \<Rightarrow> exn + pyfloat" where
  "float_truediv a n =
     (if n = 0 then Inl ZeroDivisionError
      else Inr (case a of
                  Fin x \<Rightarrow> Fin (x / real_of_int n)
                | PosInf \<Rightarrow> (if 0 < n then PosInf else NegInf)
                | NegInf \<Rightarrow> (if 0 < n then NegInf else PosInf)
                | NaN \<Rightarrow> NaN))"

text \<open>\<open>0 <= a\<close> on floats; every comparison with NaN is false.\<close>

fun float_nonneg :: "pyfloat \<Rightarrow> bool" where
  "float_nonneg (Fin x) = (0 \<le> x)"
| "float_nonneg PosInf = True"
| "float_nonneg NegInf = False"
| "float_nonneg NaN = False"

section \<open>The rows of the Graph API and the normalizer\<close>

text \<open>
  One entry of the \<open>actions\<close> and \<open>cost_per_action_type\<close> lists. A field is \<open>None\<close>
  when the key is absent from the dictionary.
\<close>

record action =
  action_type :: "string option"
  action_value :: "pyval option"

text \<open>
  One row of an insights response, with the fields that \<open>get_meta_insights\<close> asks for.
  A field is \<open>None\<close> when the key is absent.
\<close>

record insight =
  raw_campaign_id :: "string option"
  raw_campaign_name :: "string option"
  raw_adset_id :: "string option"
  raw_adset_name :: "string option"
  raw_ad_id :: "string option"
  raw_ad_name :: "string option"
  raw_spend :: "pyval option"
  raw_actions :: "action list option"
  raw_cost_per_action_type :: "action list option"

text \<open>\<open>d.get(key, default)\<close> on a field that may be absent.\<close>

definition get_default :: "'a option \<Rightarrow> 'a \<Rightarrow> 'a" where
  "get_default field d = (case field of None \<Rightarrow> d | Some v \<Rightarrow> v)"

definition ACTION_TYPE :: string where
  "ACTION_TYPE = ''onsite_conversion.messaging_conversation_started_7d''"

fun extract_action_value_loop :: "action list \<Rightarrow> string \<Rightarrow> exn + int" where
  "extract_action_value_loop [] t = Inr 0"
| "extract_action_value_loop (a # actions) t =
     (if action_type a = Some t
      then (case py_float (get_default (action_value a) (PyInt 0)) of
              Inl e \<Rightarrow> Inl e
            | Inr f \<Rightarrow> py_int f)
      else extract_action_value_loop actions t)"

definition extract_action_value :: "action list \<Rightarrow> string \<Rightarrow> exn + int" where
  "extract_action_value actions t =
     (if actions = [] then Inr 0 else extract_action_value_loop actions t)"

fun extract_cost_per_action_loop :: "action list \<Rightarrow> string \<Rightarrow> exn + pyfloat option" where
  "extract_cost_per_action_loop [] t = Inr None"
| "extract_cost_per_action_loop (a # items) t =
     (if action_type a = Some t
      then (case py_float (get_default (action_value a) (PyInt 0)) of
              Inl e \<Rightarrow> Inl e
            | Inr f \<Rightarrow> Inr (Some f))
      else extract_cost_per_action_loop items t)"

definition extract_cost_per_action :: "action list \<Rightarrow> string \<Rightarrow> exn + pyfloat option" where
  "extract_cost_per_action cost_per_action_type t =
     (if cost_per_action_type = [] then Inr None
      else extract_cost_per_action_loop cost_per_action_type t)"

definition calculate_cpl :: "pyfloat \<Rightarrow> int \<Rightarrow> pyfloat option \<Rightarrow> exn + pyfloat option" where
  "calculate_cpl spend conv cpa =
     (case cpa of
        Some c \<Rightarrow> Inr (Some c)
      | None \<Rightarrow>
          if 0 < conv
          then (case float_truediv spend conv of Inl e \<Rightarrow> Inl e | Inr q \<Rightarrow> Inr (Some q))
          else Inr None)"

section \<open>Snapshots and the collection cycle\<close>

text \<open>
  One record of a snapshot level, the dictionary that \<open>collect\<close> appends. The keys
  \<open>campaign_id\<close> and \<open>adset_id\<close> are read back with \<open>.get()\<close> only, so a key
  that is absent and a key that holds \<open>None\<close> are both \<open>None\<close> here.
\<close>

record item =
  item_id :: "string option"
  item_name :: string
  item_campaign_id :: "string option"
  item_adset_id :: "string option"
  item_spend :: pyfloat
  item_conv :: int
  item_cpl :: "pyfloat option"

record snapshot =
  ts :: string
  date :: string
  campaign :: "item list"
  adset :: "item list"
  ad :: "item list"

text \<open>
  The clock reading \<open>now\<close>, by the three renderings the code takes of it:
  \<open>now.isoformat()\<close>, \<open>now.strftime("%Y-%m-%d")\<close> and
  \<open>now.strftime("%Y%m%d_%H%M")\<close>.
\<close>

record datetime =
  isoformat :: string
  strftime_Ymd :: string
  strftime_YmdHM :: string

subsection \<open>Python dictionaries and the Firestore collection\<close>

text \<open>
  A dictionary keeps its keys in insertion order; storing under a key that is present
  replaces the value and keeps the key's position.
\<close>

fun dict_set :: "('k \<times> 'v) list \<Rightarrow> 'k \<Rightarrow> 'v \<Rightarrow> ('k \<times> 'v) list" where
  "dict_set [] k v = [(k, v)]"
| "dict_set ((k', v') # kvs) k v =
     (if k' = k then (k, v) # kvs else (k', v') # dict_set kvs k v)"

definition dict_get :: "('k \<times> 'v) list \<Rightarrow> 'k \<Rightarrow> 'v option" where
  "dict_get d k = map_of d k"

text \<open>
  The collection \<open>intraday_snapshots\<close>: documents by document id.
  \<open>document(doc_id).set(snapshot)\<close> writes or overwrites one document, and the query
  \<open>order_by("ts", DESCENDING).limit(n)\<close> returns the first \<open>n\<close> documents by
  descending \<open>ts\<close> (and descending document id where \<open>ts\<close> is the same).
  Failures of the store itself are not modelled.
\<close>

type_synonym firestore = "(string \<times> snapshot) list"

definition document_set :: "firestore \<Rightarrow> string \<Rightarrow> snapshot \<Rightarrow> firestore" where
  "document_set db doc_id snap = dict_set db doc_id snap"

definition order_by_ts_desc_limit :: "firestore \<Rightarrow> nat \<Rightarrow> snapshot list" where
  "order_by_ts_desc_limit db n =
     map snd (take n (rev (sort_key (\<lambda>(k, s). (ts s, k)) db)))"

subsection \<open>Authentication and the Graph API\<close>

definition verify_api_key :: "string \<Rightarrow> string \<Rightarrow> exn + unit" where
  "verify_api_key API_KEY x_api_key =
     (if x_api_key \<noteq> API_KEY then Inl (HTTPException 401) else Inr ())"

text \<open>
  \<open>graph_api level date_preset\<close> is the exchange with the Graph API: the rows under
  \<open>data\<close> in the response, or the exception raised on the way. Whatever is raised
  becomes an \<open>HTTPException\<close> with status 500.
\<close>

definition get_meta_insights ::
  "(string \<Rightarrow> string \<Rightarrow> exn + insight list) \<Rightarrow> string \<Rightarrow> string \<Rightarrow> exn + insight list" where
  "get_meta_insights graph_api level date_preset =
     (case graph_api level date_preset of
        Inl e \<Rightarrow> Inl (HTTPException 500)
      | Inr data \<Rightarrow> Inr data)"

subsection \<open>\<open>collect\<close>\<close>

text \<open>
  The first statements of the three loop bodies are the same: \<open>spend\<close>, \<open>conv\<close>,
  \<open>cpa\<close> and \<open>cpl\<close> of one row, in the order the code evaluates them.
\<close>

definition row_metrics :: "insight \<Rightarrow> exn + (pyfloat \<times> int \<times> pyfloat option)" where
  "row_metrics row =
     (case py_float (get_default (raw_spend row) (PyInt 0)) of
        Inl e \<Rightarrow> Inl e
      | Inr spend \<Rightarrow>
          (let actions = get_default (raw_actions row) [];
               cost_per_action = get_default (raw_cost_per_action_type row) []
           in case extract_action_value actions ACTION_TYPE of
                Inl e \<Rightarrow> Inl e
              | Inr conv \<Rightarrow>
                  (case extract_cost_per_action cost_per_action ACTION_TYPE of
                     Inl e \<Rightarrow> Inl e
                   | Inr cpa \<Rightarrow>
                       (case calculate_cpl spend conv cpa of
                          Inl e \<Rightarrow> Inl e
                        | Inr cpl \<Rightarrow> Inr (spend, conv, cpl)))))"

definition campaign_item :: "insight \<Rightarrow> exn + item" where
  "campaign_item row =
     (case row_metrics row of
        Inl e \<Rightarrow> Inl e
      | Inr (spend, conv, cpl) \<Rightarrow>
          Inr \<lparr>item_id = raw_campaign_id row,
               item_name = get_default (raw_campaign_name row) [],
               item_campaign_id = None,
               item_adset_id = None,
               item_spend = spend, item_conv = conv, item_cpl = cpl\<rparr>)"

definition adset_item :: "insight \<Rightarrow> exn + item" where
  "adset_item row =
     (case row_metrics row of
        Inl e \<Rightarrow> Inl e
      | Inr (spend, conv, cpl) \<Rightarrow>
          Inr \<lparr>item_id = raw_adset_id row,
               item_name = get_default (raw_adset_name row) [],
               item_campaign_id = raw_campaign_id row,
               item_adset_id = None,
               item_spend = spend, item_conv = conv, item_cpl = cpl\<rparr>)"

definition ad_item :: "insight \<Rightarrow> exn + item" where
  "ad_item row =
     (case row_metrics row of
        Inl e \<Rightarrow> Inl e
      | Inr (spend, conv, cpl) \<Rightarrow>
          Inr \<lparr>item_id = raw_ad_id row,
               item_name = get_default (raw_ad_name row) [],
               item_campaign_id = raw_campaign_id row,
               item_adset_id = raw_adset_id row,
               item_spend = spend, item_conv = conv, item_cpl = cpl\<rparr>)"

text \<open>
  \<open>for x in xs: ... out.append(body(x))\<close>: the loop stops at the first exception.
\<close>

fun for_append :: "('a \<Rightarrow> exn + 'b) \<Rightarrow> 'a list \<Rightarrow> 'b list \<Rightarrow> exn + 'b list" where
  "for_append body [] out = Inr out"
| "for_append body (x # xs) out =
     (case body x of
        Inl e \<Rightarrow> Inl e
      | Inr y \<Rightarrow> for_append body xs (out @ [y]))"

record collect_response =
  status :: string
  doc_id :: string
  counts_campaigns :: nat
  counts_adsets :: nat
  counts_ads :: nat

text \<open>The body of the \<open>try\<close> block of \<open>collect\<close>: its result and the collection after it.\<close>

definition collect_try ::
  "(string \<Rightarrow> string \<Rightarrow> exn + insight list) \<Rightarrow> datetime \<Rightarrow> firestore
     \<Rightarrow> (exn + collect_response) \<times> firestore" where
  "collect_try graph_api now db =
     (case get_meta_insights graph_api ''campaign'' ''today'' of
        Inl e \<Rightarrow> (Inl e, db)
      | Inr campaigns \<Rightarrow>
     (case get_meta_insights graph_api ''adset'' ''today'' of
        Inl e \<Rightarrow> (Inl e, db)
      | Inr adsets \<Rightarrow>
     (case get_meta_insights graph_api ''ad'' ''today'' of
        Inl e \<Rightarrow> (Inl e, db)
      | Inr ads \<Rightarrow>
     (case for_append campaign_item campaigns [] of
        Inl e \<Rightarrow> (Inl e, db)
      | Inr campaign_items \<Rightarrow>
     (case for_append adset_item adsets [] of
        Inl e \<Rightarrow> (Inl e, db)
      | Inr adset_items \<Rightarrow>
     (case for_append ad_item ads [] of
        Inl e \<Rightarrow> (Inl e, db)
      | Inr ad_items \<Rightarrow>
          (let snap = \<lparr>ts = isoformat now, date = strftime_Ymd now,
                       campaign = campaign_items, adset = adset_items, ad = ad_items\<rparr>
           in (Inr \<lparr>status = ''success'', doc_id = strftime_YmdHM now,
                    counts_campaigns = length campaigns,
                    counts_adsets = length adsets,
                    counts_ads = length ads\<rparr>,
               document_set db (strftime_YmdHM now) snap))))))))"

definition collect ::
  "string \<Rightarrow> (string \<Rightarrow> string \<Rightarrow> exn + insight list) \<Rightarrow> datetime \<Rightarrow> string \<Rightarrow> firestore
     \<Rightarrow> (exn + collect_response) \<times> firestore" where
  "collect API_KEY graph_api now x_api_key db =
     (case verify_api_key API_KEY x_api_key of
        Inl e \<Rightarrow> (Inl e, db)
      | Inr _ \<Rightarrow>
          (case collect_try graph_api now db of
             (Inl e, db') \<Rightarrow> (Inl (HTTPException 500), db')
           | (Inr r, db') \<Rightarrow> (Inr r, db')))"

section \<open>The intraday view\<close>

record metric_item =
  metric_id :: "string option"
  metric_name :: string
  campaign_id :: "string option"
  adset_id :: "string option"
  spend_today :: pyfloat
  conv_today :: int
  cpl_today :: "pyfloat option"
  spend_30m :: pyfloat
  conv_30m :: int
  cpl_30m :: "pyfloat option"

text \<open>\<open>snap.get(level, [])\<close>\<close>

definition snapshot_get :: "snapshot \<Rightarrow> string \<Rightarrow> item list" where
  "snapshot_get snap level =
     (if level = ''campaign'' then campaign snap
      else if level = ''adset'' then adset snap
      else if level = ''ad'' then ad snap
      else [])"

text \<open>\<open>{item["id"]: item for item in items}\<close>\<close>

definition index_by_id :: "item list \<Rightarrow> (string option \<times> item) list" where
  "index_by_id items = foldl (\<lambda>d it. dict_set d (item_id it) it) [] items"

text \<open>
  The body of the loop over \<open>current_items.items()\<close>. The default for an id unseen
  in \<open>previous_items\<close> is \<open>{"spend": 0, "conv": 0}\<close>.
\<close>

definition delta_item ::
  "(string option \<times> item) list \<Rightarrow> string option \<times> item \<Rightarrow> exn + metric_item" where
  "delta_item previous_items entry =
     (case entry of (iid, cur) \<Rightarrow>
        (let (prev_spend, prev_conv) =
               (case dict_get previous_items iid of
                  None \<Rightarrow> (Fin 0, 0)
                | Some prev \<Rightarrow> (item_spend prev, item_conv prev));
             spend_30m' = float_sub (item_spend cur) prev_spend;
             conv_30m' = item_conv cur - prev_conv
         in case (if 0 < conv_30m'
                  then (case float_truediv spend_30m' conv_30m' of
                          Inl e \<Rightarrow> Inl e
                        | Inr q \<Rightarrow> Inr (Some q))
                  else Inr None) of
              Inl e \<Rightarrow> Inl e
            | Inr cpl_30m' \<Rightarrow>
                Inr \<lparr>metric_id = iid,
                     metric_name = item_name cur,
                     campaign_id = item_campaign_id cur,
                     adset_id = item_adset_id cur,
                     spend_today = item_spend cur,
                     conv_today = item_conv cur,
                     cpl_today = item_cpl cur,
                     spend_30m = spend_30m',
                     conv_30m = conv_30m',
                     cpl_30m = cpl_30m'\<rparr>))"

text \<open>The body of the \<open>try\<close> block of \<open>get_intraday\<close>.\<close>

definition intraday_try :: "string \<Rightarrow> firestore \<Rightarrow> exn + metric_item list" where
  "intraday_try level db =
     (case order_by_ts_desc_limit db 2 of
        [] \<Rightarrow> Inr []
      | current # rest \<Rightarrow>
          (let previous = (case rest of [] \<Rightarrow> None | p # _ \<Rightarrow> Some p);
               current_items = index_by_id (snapshot_get current level);
               previous_items =
                 (case previous of
                    None \<Rightarrow> []
                  | Some p \<Rightarrow> index_by_id (snapshot_get p level))
           in for_append (delta_item previous_items) current_items []))"

definition get_intraday :: "string \<Rightarrow> string \<Rightarrow> string \<Rightarrow> firestore \<Rightarrow> exn + metric_item list" where
  "get_intraday API_KEY level x_api_key db =
     (case verify_api_key API_KEY x_api_key of
        Inl e \<Rightarrow> Inl e
      | Inr _ \<Rightarrow>
          if level \<notin> set [''campaign'', ''adset'', ''ad''] then Inl (HTTPException 400)
          else (case intraday_try level db of
                  Inl e \<Rightarrow> Inl (HTTPException 500)
                | Inr result \<Rightarrow> Inr result))"

section \<open>Scenarios\<close>

text \<open>Concrete inputs on which the properties below are exercised.\<close>

definition example_now :: datetime where
  "example_now =
     \<lparr>isoformat = ''2024-05-01T12:30:00+00:00'', strftime_Ymd = ''2024-05-01'',
      strftime_YmdHM = ''20240501_1230''\<rparr>"

text \<open>A Graph API whose answer for the ad sets fails.\<close>

definition failing_api :: "string \<Rightarrow> string \<Rightarrow> exn + insight list" where
  "failing_api level date_preset = (if level = ''adset'' then Inl RequestException else Inr [])"

text \<open>
  Two snapshots half an hour apart: X is in both (its spend revised downwards), Y only in
  the current one, Z only in the previous one.
\<close>

definition example_previous :: snapshot where
  "example_previous =
     \<lparr>ts = ''2024-05-01T12:00:00+00:00'', date = ''2024-05-01'',
      campaign =
        [\<lparr>item_id = Some ''X'', item_name = ''x'', item_campaign_id = None, item_adset_id = None,
          item_spend = Fin 100, item_conv = 3, item_cpl = None\<rparr>,
         \<lparr>item_id = Some ''Z'', item_name = ''z'', item_campaign_id = None, item_adset_id = None,
          item_spend = Fin 5, item_conv = 1, item_cpl = Some (Fin 5)\<rparr>],
      adset = [], ad = []\<rparr>"

definition example_current :: snapshot where
  "example_current =
     \<lparr>ts = ''2024-05-01T12:30:00+00:00'', date = ''2024-05-01'',
      campaign =
        [\<lparr>item_id = Some ''X'', item_name = ''x'', item_campaign_id = None, item_adset_id = None,
          item_spend = Fin 90, item_conv = 5, item_cpl = Some (Fin 18)\<rparr>,
         \<lparr>item_id = Some ''Y'', item_name = ''y'', item_campaign_id = None, item_adset_id = None,
          item_spend = Fin 50, item_conv = 0, item_cpl = None\<rparr>],
      adset = [], ad = []\<rparr>"

definition example_db :: firestore where
  "example_db = [(''20240501_1200'', example_previous), (''20240501_1230'', example_current)]"


text \<open>Rows of the campaign level, and a Graph API that answers with them.\<close>

definition target_entry :: "pyval option \<Rightarrow> action" where
  "target_entry v = \<lparr>action_type = Some ACTION_TYPE, action_value = v\<rparr>"

definition campaign_row ::
  "string \<Rightarrow> pyval option \<Rightarrow> action list option \<Rightarrow> action list option \<Rightarrow> insight" where
  "campaign_row cid sp acts costs =
     \<lparr>raw_campaign_id = Some cid, raw_campaign_name = Some ''name'',
      raw_adset_id = None, raw_adset_name = None, raw_ad_id = None, raw_ad_name = None,
      raw_spend = sp, raw_actions = acts, raw_cost_per_action_type = costs\<rparr>"

definition campaigns_only :: "insight list \<Rightarrow> string \<Rightarrow> string \<Rightarrow> exn + insight list" where
  "campaigns_only rows level date_preset = (if level = ''campaign'' then Inr rows else Inr [])"

definition reported_cpa_row :: insight where
  "reported_cpa_row =
     campaign_row ''c1'' (Some (PyStr ''10''))
       (Some [target_entry (Some (PyStr ''2''))]) (Some [target_entry (Some (PyStr ''7''))])"

text \<open>
  Rows whose fields are unusual: a negative reported cost, a spend that is not a number,
  a negative spend, no spend at all, and an id that the source repeats; and a list of
  cost-per-action entries whose second match has no value.
\<close>

definition negative_cpa_row :: insight where
  "negative_cpa_row =
     campaign_row ''c5'' (Some (PyStr ''10'')) None (Some [target_entry (Some (PyStr ''-1''))])"

definition first_match_items :: "action list" where
  "first_match_items = [target_entry (Some (PyStr ''5'')), target_entry None]"

definition malformed_spend_row :: insight where
  "malformed_spend_row = campaign_row ''c2'' (Some (PyStr ''abc'')) None None"

definition negative_spend_row :: insight where
  "negative_spend_row = campaign_row ''c3'' (Some (PyStr ''-5'')) None None"

definition no_spend_row :: insight where
  "no_spend_row = campaign_row ''c4'' None None None"

definition repeated_id_rows :: "insight list" where
  "repeated_id_rows =
     [campaign_row ''c1'' (Some (PyStr ''1'')) None None,
      campaign_row ''c1'' (Some (PyStr ''2'')) None None]"

section \<open>Evaluating \<open>float(str)\<close> on a literal\<close>

lemmas float_of_str_eval =
  float_of_str_def strip_def is_space_def lower_def parse_number_def digitpart_def is_digit_def
  parse_exponent_def scale10_def nat_of_digits_def digit_val_def

section \<open>Loops and dictionaries\<close>

lemma for_append_Inr_map:
  "(\<And>x. x \<in> set xs \<Longrightarrow> body x = Inr (g x)) \<Longrightarrow> for_append body xs out = Inr (out @ map g xs)"
  by (induction xs arbitrary: out) simp_all

lemma for_append_Inl:
  "x \<in> set xs \<Longrightarrow> body x = Inl e \<Longrightarrow> \<exists>e'. for_append body xs out = Inl e'"
  by (induction xs arbitrary: out) (auto split: sum.splits)

lemma for_append_Inr_iff:
  "for_append body xs out = Inr r \<longleftrightarrow>
     (\<exists>ys. r = out @ ys \<and> list_all2 (\<lambda>x y. body x = Inr y) xs ys)"
proof (induction xs arbitrary: out r)
  case Nil
  show ?case by auto
next
  case (Cons x xs)
  show ?case
  proof (cases "body x")
    case (Inl e)
    then show ?thesis by (auto simp: list_all2_Cons1)
  next
    case (Inr y)
    then show ?thesis by (auto simp: Cons.IH list_all2_Cons1)
  qed
qed

lemma dict_set_keys:
  "map fst (dict_set d k v) = (if k \<in> fst ` set d then map fst d else map fst d @ [k])"
  by (induction d) force+

lemma dict_set_key_set: "fst ` set (dict_set d k v) = insert k (fst ` set d)"
proof -
  have "fst ` set (dict_set d k v) = set (map fst (dict_set d k v))"
    by simp
  also have "\<dots> = insert k (fst ` set d)"
    unfolding dict_set_keys by auto
  finally show ?thesis .
qed

lemma find_SomeD: "find P xs = Some x \<Longrightarrow> P x \<and> x \<in> set xs"
  by (induction xs) (auto split: if_splits)

lemma find_snoc:
  "find P (xs @ [y]) =
     (case find P xs of Some x \<Rightarrow> Some x | None \<Rightarrow> if P y then Some y else None)"
  by (induction xs) auto

lemma dict_set_distinct:
  "distinct (map fst d) \<Longrightarrow> distinct (map fst (dict_set d k v))"
  by (simp add: dict_set_keys)

lemma dict_get_dict_set:
  "dict_get (dict_set d k v) k' = (if k' = k then Some v else dict_get d k')"
  by (induction d) (auto simp: dict_get_def)

lemma index_fold_distinct:
  "distinct (map fst d) \<Longrightarrow>
     distinct (map fst (foldl (\<lambda>d it. dict_set d (item_id it) it) d items))"
  by (induction items arbitrary: d) (simp_all add: dict_set_distinct)

lemma index_fold_keys:
  "fst ` set (foldl (\<lambda>d it. dict_set d (item_id it) it) d items) =
     fst ` set d \<union> item_id ` set items"
proof (induction items arbitrary: d)
  case Nil
  show ?case by simp
next
  case (Cons x xs)
  have "fst ` set (dict_set d (item_id x) x) = insert (item_id x) (fst ` set d)"
    by (rule dict_set_key_set)
  then show ?case by (simp add: Cons.IH)
qed

lemma index_fold_get:
  "dict_get (foldl (\<lambda>d it. dict_set d (item_id it) it) d items) k =
     (case find (\<lambda>it. item_id it = k) (rev items) of
        Some it \<Rightarrow> Some it
      | None \<Rightarrow> dict_get d k)"
  by (induction items arbitrary: d) (auto simp: find_snoc dict_get_dict_set split: option.splits)

lemma index_by_id_distinct: "distinct (map fst (index_by_id items))"
  unfolding index_by_id_def by (rule index_fold_distinct) simp

lemma index_by_id_keys: "fst ` set (index_by_id items) = item_id ` set items"
  unfolding index_by_id_def by (simp add: index_fold_keys)

lemma index_by_id_get:
  "dict_get (index_by_id items) k = find (\<lambda>it. item_id it = k) (rev items)"
proof -
  have "dict_get ([] :: (string option \<times> item) list) k = None"
    by (simp add: dict_get_def)
  then show ?thesis
    unfolding index_by_id_def by (simp add: index_fold_get split: option.splits)
qed

lemma index_by_id_entry:
  assumes "(k, c) \<in> set (index_by_id items)"
  shows "dict_get (index_by_id items) k = Some c" and "item_id c = k" and "c \<in> set items"
proof -
  show g: "dict_get (index_by_id items) k = Some c"
    using assms index_by_id_distinct [of items] by (simp add: dict_get_def)
  then have "find (\<lambda>it. item_id it = k) (rev items) = Some c"
    by (simp add: index_by_id_get)
  then have "item_id c = k \<and> c \<in> set (rev items)"
    by (rule find_SomeD)
  then show "item_id c = k" and "c \<in> set items"
    by simp_all
qed

section \<open>The normalizer\<close>

text \<open>
  C4. The derived cost value of \<open>calculate_cpl\<close> is the reported cost-per-action when
  there is one; otherwise spend divided by conversions when conversions are positive;
  otherwise null. The division is never reached with a zero divisor, so
  \<open>ZeroDivisionError\<close> is never raised.
\<close>

theorem calculate_cpl_cases:
  "(\<forall>c. cpa = Some c \<longrightarrow> calculate_cpl spend conv cpa = Inr (Some c)) \<and>
   (cpa = None \<and> 0 < conv \<longrightarrow>
      (\<exists>q. float_truediv spend conv = Inr q \<and> calculate_cpl spend conv cpa = Inr (Some q))) \<and>
   (\<forall>x. cpa = None \<and> 0 < conv \<and> spend = Fin x \<longrightarrow>
      calculate_cpl spend conv cpa = Inr (Some (Fin (x / real_of_int conv)))) \<and>
   (cpa = None \<and> conv \<le> 0 \<longrightarrow> calculate_cpl spend conv cpa = Inr None) \<and>
   calculate_cpl spend conv cpa \<noteq> Inl ZeroDivisionError"
  by (cases cpa) (auto simp: calculate_cpl_def float_truediv_def)

theorem calculate_cpl_cases_witness:
  "calculate_cpl (Fin 100) 5 None = Inr (Some (Fin 20)) \<and>
   calculate_cpl (Fin 50) 0 None = Inr None \<and>
   calculate_cpl (Fin 100) 5 (Some (Fin 7)) = Inr (Some (Fin 7))"
  using calculate_cpl_cases [of None "Fin 100" 5] calculate_cpl_cases [of None "Fin 50" 0]
    calculate_cpl_cases [of "Some (Fin 7)" "Fin 100" 5]
  by simp

section \<open>The collection cycle\<close>

lemma collect_try_fetch_fails:
  assumes "level \<in> set [''campaign'', ''adset'', ''ad'']" and "graph_api level ''today'' = Inl e"
  shows "collect_try graph_api now db = (Inl (HTTPException 500), db)"
proof -
  consider "level = ''campaign''" | "level = ''adset''" | "level = ''ad''"
    using assms(1) by auto
  then show ?thesis
  proof cases
    case 1
    with assms(2) show ?thesis
      by (simp add: collect_try_def get_meta_insights_def)
  next
    case 2
    with assms(2) show ?thesis
      by (simp add: collect_try_def get_meta_insights_def split: sum.splits)
  next
    case 3
    with assms(2) show ?thesis
      by (simp add: collect_try_def get_meta_insights_def split: sum.splits)
  qed
qed

text \<open>
  C8. If the fetch of any one level fails, \<open>collect\<close> ends with an error for the caller
  (status 500 for an authorised request) and the collection of snapshots is what it was
  before: nothing is written.
\<close>

theorem collect_fetch_failure_aborts:
  assumes "level \<in> set [''campaign'', ''adset'', ''ad'']" and "graph_api level ''today'' = Inl e"
  shows "collect API_KEY graph_api now x_api_key db =
           (Inl (HTTPException (if x_api_key = API_KEY then 500 else 401)), db)"
proof -
  have "collect_try graph_api now db = (Inl (HTTPException 500), db)"
    using assms by (rule collect_try_fetch_fails)
  then show ?thesis
    by (simp add: collect_def verify_api_key_def)
qed

theorem collect_fetch_failure_aborts_witness:
  "''adset'' \<in> set [''campaign'', ''adset'', ''ad''] \<and>
   failing_api ''adset'' ''today'' = Inl RequestException \<and>
   collect ''key'' failing_api example_now ''key'' [] = (Inl (HTTPException 500), [])"
proof -
  have h1: "''adset'' \<in> set [''campaign'', ''adset'', ''ad'']"
    by simp
  have h2: "failing_api ''adset'' ''today'' = Inl RequestException"
    by (simp add: failing_api_def)
  show ?thesis
    using h1 h2
      collect_fetch_failure_aborts
        [of "''adset''" failing_api RequestException "''key''" example_now "''key''" "[]"]
    by simp
qed

section \<open>The intraday view of the stored snapshots\<close>

text \<open>
  C9. With no snapshot in the collection, an authorised request for any of the three
  levels returns the empty list, not an error.
\<close>

theorem get_intraday_no_snapshots:
  assumes "x_api_key = API_KEY" and "level \<in> set [''campaign'', ''adset'', ''ad'']"
  shows "get_intraday API_KEY level x_api_key [] = Inr []"
  using assms
  by (simp add: get_intraday_def verify_api_key_def intraday_try_def order_by_ts_desc_limit_def)

theorem get_intraday_no_snapshots_witness:
  "''adset'' \<in> set [''campaign'', ''adset'', ''ad''] \<and>
   get_intraday ''key'' ''adset'' ''key'' [] = Inr []"
proof -
  have h: "''adset'' \<in> set [''campaign'', ''adset'', ''ad'']"
    by simp
  show ?thesis
    using h get_intraday_no_snapshots [OF refl h, of "''key''"] by simp
qed

lemma float_sub_zero: "float_sub a (Fin 0) = a"
  by (cases a) simp_all

lemma delta_item_result:
  "\<exists>m. delta_item previous_items (k, c) = Inr m \<and>
       metric_id m = k \<and>
       spend_today m = item_spend c \<and> conv_today m = item_conv c \<and> cpl_today m = item_cpl c \<and>
       spend_30m m =
         float_sub (item_spend c)
           (case dict_get previous_items k of None \<Rightarrow> Fin 0 | Some p \<Rightarrow> item_spend p) \<and>
       conv_30m m =
         item_conv c - (case dict_get previous_items k of None \<Rightarrow> 0 | Some p \<Rightarrow> item_conv p) \<and>
       (0 < conv_30m m \<longrightarrow>
          (\<exists>q. float_truediv (spend_30m m) (conv_30m m) = Inr q \<and> cpl_30m m = Some q)) \<and>
       (conv_30m m \<le> 0 \<longrightarrow> cpl_30m m = None)"
  by (cases "dict_get previous_items k")
    (auto simp: delta_item_def Let_def float_truediv_def split: pyfloat.splits)

lemma intraday_try_rows:
  assumes "order_by_ts_desc_limit db 2 = current # rest"
  shows "intraday_try level db =
           Inr (map (\<lambda>e. projr (delta_item
                                 (case rest of [] \<Rightarrow> [] | p # _ \<Rightarrow> index_by_id (snapshot_get p level)) e))
                  (index_by_id (snapshot_get current level)))"
proof -
  let ?prev = "case rest of [] \<Rightarrow> [] | p # _ \<Rightarrow> index_by_id (snapshot_get p level)"
  have body: "delta_item ?prev e = Inr (projr (delta_item ?prev e))" for e
    using delta_item_result [of ?prev "fst e" "snd e"] by auto
  have "for_append (delta_item ?prev) (index_by_id (snapshot_get current level)) [] =
          Inr ([] @ map (\<lambda>e. projr (delta_item ?prev e)) (index_by_id (snapshot_get current level)))"
    by (rule for_append_Inr_map) (rule body)
  moreover have "intraday_try level db =
      for_append (delta_item ?prev) (index_by_id (snapshot_get current level)) []"
    using assms by (cases rest) (simp_all add: intraday_try_def)
  ultimately show ?thesis by simp
qed

lemma get_intraday_authorized:
  assumes "x_api_key = API_KEY" and "level \<in> set [''campaign'', ''adset'', ''ad'']"
    and "intraday_try level db = Inr result"
  shows "get_intraday API_KEY level x_api_key db = Inr result"
  using assms by (simp add: get_intraday_def verify_api_key_def)

text \<open>
  C1. For an authorised request on a valid level, with \<open>current\<close> the newest snapshot and
  \<open>rest\<close> what follows it in the query's answer, the result has exactly one record per
  id of the current snapshot's index for that level, in the index's order: ids that are
  only in the previous snapshot are not in it. For each record, \<open>spend_30m\<close> is the
  current spend minus the previous spend and \<open>conv_30m\<close> the current conversions minus
  the previous ones, with 0 for an id the previous index does not have; on finite spends
  the difference is the real difference, negative or not.
\<close>

theorem get_intraday_deltas:
  assumes "x_api_key = API_KEY" and "level \<in> set [''campaign'', ''adset'', ''ad'']"
    and "order_by_ts_desc_limit db 2 = current # rest"
  shows "\<exists>result. get_intraday API_KEY level x_api_key db = Inr result \<and>
      map metric_id result = map fst (index_by_id (snapshot_get current level)) \<and>
      distinct (map metric_id result) \<and>
      set (map metric_id result) = item_id ` set (snapshot_get current level) \<and>
      (\<forall>r \<in> set result.
         \<exists>c. dict_get (index_by_id (snapshot_get current level)) (metric_id r) = Some c \<and>
           (case dict_get (case rest of [] \<Rightarrow> [] | p # _ \<Rightarrow> index_by_id (snapshot_get p level))
                   (metric_id r) of
              None \<Rightarrow>
                spend_30m r = float_sub (item_spend c) (Fin 0) \<and> conv_30m r = item_conv c - 0
            | Some p \<Rightarrow>
                spend_30m r = float_sub (item_spend c) (item_spend p) \<and>
                conv_30m r = item_conv c - item_conv p \<and>
                (\<forall>a b. item_spend c = Fin a \<and> item_spend p = Fin b \<longrightarrow>
                   spend_30m r = Fin (a - b))))"
proof -
  let ?prev = "case rest of [] \<Rightarrow> [] | p # _ \<Rightarrow> index_by_id (snapshot_get p level)"
  let ?idx = "index_by_id (snapshot_get current level)"
  let ?g = "\<lambda>e. projr (delta_item ?prev e)"
  let ?result = "map ?g ?idx"
  have g_id: "metric_id (?g e) = fst e" for e
    using delta_item_result [of ?prev "fst e" "snd e"] by auto
  have run: "get_intraday API_KEY level x_api_key db = Inr ?result"
    using assms(1,2) intraday_try_rows [OF assms(3)] by (rule get_intraday_authorized)
  have ids: "map metric_id ?result = map fst ?idx"
    by (simp add: g_id)
  have dist: "distinct (map metric_id ?result)"
    unfolding ids by (rule index_by_id_distinct)
  have keys: "set (map metric_id ?result) = item_id ` set (snapshot_get current level)"
    unfolding ids by (simp add: index_by_id_keys)
  have each: "\<exists>c. dict_get ?idx (metric_id r) = Some c \<and>
           (case dict_get ?prev (metric_id r) of
              None \<Rightarrow>
                spend_30m r = float_sub (item_spend c) (Fin 0) \<and> conv_30m r = item_conv c - 0
            | Some p \<Rightarrow>
                spend_30m r = float_sub (item_spend c) (item_spend p) \<and>
                conv_30m r = item_conv c - item_conv p \<and>
                (\<forall>a b. item_spend c = Fin a \<and> item_spend p = Fin b \<longrightarrow>
                   spend_30m r = Fin (a - b)))"
    if "r \<in> set ?result" for r
  proof -
    from that obtain k c where kc: "(k, c) \<in> set ?idx" and r: "r = ?g (k, c)"
      by auto
    have look: "dict_get ?idx k = Some c"
      using kc by (rule index_by_id_entry(1))
    obtain m where m: "delta_item ?prev (k, c) = Inr m" "metric_id m = k"
      "spend_30m m =
         float_sub (item_spend c)
           (case dict_get ?prev k of None \<Rightarrow> Fin 0 | Some p \<Rightarrow> item_spend p)"
      "conv_30m m =
         item_conv c - (case dict_get ?prev k of None \<Rightarrow> 0 | Some p \<Rightarrow> item_conv p)"
      using delta_item_result [of ?prev k c] by blast
    have rm: "r = m"
      using r m(1) by simp
    show ?thesis
      using look m(2,3,4) unfolding rm
      by (cases "dict_get ?prev k") auto
  qed
  show ?thesis
    using run ids dist keys each by blast
qed


theorem get_intraday_deltas_witness:
  "''campaign'' \<in> set [''campaign'', ''adset'', ''ad''] \<and>
   order_by_ts_desc_limit example_db 2 = [example_current, example_previous] \<and>
   (\<exists>result. get_intraday ''key'' ''campaign'' ''key'' example_db = Inr result \<and>
      map metric_id result = [Some ''X'', Some ''Y''] \<and>
      map spend_30m result = [Fin (- 10), Fin 50] \<and>
      map conv_30m result = [2, 0])"
proof -
  have h1: "''campaign'' \<in> set [''campaign'', ''adset'', ''ad'']"
    by simp
  have h2: "order_by_ts_desc_limit example_db 2 = [example_current, example_previous]"
    by (simp add: order_by_ts_desc_limit_def example_db_def example_current_def
        example_previous_def less_eq_prod_def less_prod_def)
  have idx: "index_by_id (snapshot_get example_current ''campaign'') =
      [(Some ''X'', campaign example_current ! 0), (Some ''Y'', campaign example_current ! 1)]"
    by (simp add: index_by_id_def snapshot_get_def example_current_def)
  have prev: "index_by_id (snapshot_get example_previous ''campaign'') =
      [(Some ''X'', campaign example_previous ! 0), (Some ''Z'', campaign example_previous ! 1)]"
    by (simp add: index_by_id_def snapshot_get_def example_previous_def)
  from get_intraday_deltas [OF refl h1 h2, of "''key''"]
  obtain result where r: "get_intraday ''key'' ''campaign'' ''key'' example_db = Inr result"
    "map metric_id result = map fst (index_by_id (snapshot_get example_current ''campaign''))"
    "\<forall>r \<in> set result.
         \<exists>c. dict_get (index_by_id (snapshot_get example_current ''campaign'')) (metric_id r) = Some c \<and>
           (case dict_get (index_by_id (snapshot_get example_previous ''campaign'')) (metric_id r) of
              None \<Rightarrow>
                spend_30m r = float_sub (item_spend c) (Fin 0) \<and> conv_30m r = item_conv c - 0
            | Some p \<Rightarrow>
                spend_30m r = float_sub (item_spend c) (item_spend p) \<and>
                conv_30m r = item_conv c - item_conv p \<and>
                (\<forall>a b. item_spend c = Fin a \<and> item_spend p = Fin b \<longrightarrow>
                   spend_30m r = Fin (a - b)))"
    by auto
  from r(2) obtain rx ry where res: "result = [rx, ry]" "metric_id rx = Some ''X''" "metric_id ry = Some ''Y''"
    unfolding idx by auto
  have "spend_30m rx = Fin (- 10) \<and> conv_30m rx = 2"
    using r(3) res unfolding idx prev
    by (simp add: dict_get_def example_current_def example_previous_def)
  moreover have "spend_30m ry = Fin 50 \<and> conv_30m ry = 0"
    using r(3) res unfolding idx prev
    by (simp add: dict_get_def example_current_def example_previous_def)
  ultimately show ?thesis
    using h1 h2 r(1) res by simp
qed


lemma intraday_try_total:
  "\<exists>result. intraday_try level db = Inr result \<and>
     (\<forall>r \<in> set result.
        (0 < conv_30m r \<longrightarrow>
           (\<exists>q. float_truediv (spend_30m r) (conv_30m r) = Inr q \<and> cpl_30m r = Some q)) \<and>
        (conv_30m r \<le> 0 \<longrightarrow> cpl_30m r = None))"
proof (cases "order_by_ts_desc_limit db 2")
  case Nil
  then show ?thesis by (simp add: intraday_try_def)
next
  case (Cons current rest)
  let ?prev = "case rest of [] \<Rightarrow> [] | p # _ \<Rightarrow> index_by_id (snapshot_get p level)"
  have "(0 < conv_30m r \<longrightarrow>
           (\<exists>q. float_truediv (spend_30m r) (conv_30m r) = Inr q \<and> cpl_30m r = Some q)) \<and>
        (conv_30m r \<le> 0 \<longrightarrow> cpl_30m r = None)"
    if "r \<in> (\<lambda>e. projr (delta_item ?prev e)) ` set (index_by_id (snapshot_get current level))" for r
  proof -
    from that obtain k c where r: "r = projr (delta_item ?prev (k, c))"
      by auto
    obtain m where m: "delta_item ?prev (k, c) = Inr m"
      "0 < conv_30m m \<longrightarrow>
          (\<exists>q. float_truediv (spend_30m m) (conv_30m m) = Inr q \<and> cpl_30m m = Some q)"
      "conv_30m m \<le> 0 \<longrightarrow> cpl_30m m = None"
      using delta_item_result [of ?prev k c] by blast
    have "r = m"
      using r m(1) by simp
    then show ?thesis
      using m(2,3) by simp
  qed
  then show ?thesis
    unfolding intraday_try_rows [OF Cons] by simp
qed

text \<open>
  C3. An authorised request on a valid level always returns records, never the error of a
  division by zero, and in every record \<open>cpl_30m\<close> is \<open>spend_30m / conv_30m\<close> when
  \<open>conv_30m\<close> is positive and null when it is zero or negative.
\<close>

theorem cpl_window_guarded:
  assumes "x_api_key = API_KEY" and "level \<in> set [''campaign'', ''adset'', ''ad'']"
  shows "\<exists>result. get_intraday API_KEY level x_api_key db = Inr result \<and>
     (\<forall>r \<in> set result.
        (0 < conv_30m r \<longrightarrow>
           (\<exists>q. float_truediv (spend_30m r) (conv_30m r) = Inr q \<and> cpl_30m r = Some q)) \<and>
        (\<forall>x. 0 < conv_30m r \<and> spend_30m r = Fin x \<longrightarrow>
           cpl_30m r = Some (Fin (x / real_of_int (conv_30m r)))) \<and>
        (conv_30m r \<le> 0 \<longrightarrow> cpl_30m r = None))"
proof -
  obtain result where run: "intraday_try level db = Inr result"
    and each: "\<forall>r \<in> set result.
        (0 < conv_30m r \<longrightarrow>
           (\<exists>q. float_truediv (spend_30m r) (conv_30m r) = Inr q \<and> cpl_30m r = Some q)) \<and>
        (conv_30m r \<le> 0 \<longrightarrow> cpl_30m r = None)"
    using intraday_try_total [of level db] by blast
  have "get_intraday API_KEY level x_api_key db = Inr result"
    using assms run by (rule get_intraday_authorized)
  moreover have "\<forall>r \<in> set result. \<forall>x. 0 < conv_30m r \<and> spend_30m r = Fin x \<longrightarrow>
           cpl_30m r = Some (Fin (x / real_of_int (conv_30m r)))"
    using each by (fastforce simp: float_truediv_def)
  ultimately show ?thesis
    using each by blast
qed

theorem cpl_window_guarded_witness:
  "''campaign'' \<in> set [''campaign'', ''adset'', ''ad''] \<and>
   (\<exists>result. get_intraday ''key'' ''campaign'' ''key'' example_db = Inr result \<and>
      map conv_30m result = [2, 0] \<and>
      map cpl_30m result = [Some (Fin (- 5)), None])"
proof -
  have h: "''campaign'' \<in> set [''campaign'', ''adset'', ''ad'']"
    by simp
  have run: "get_intraday ''key'' ''campaign'' ''key'' example_db =
      Inr (map (\<lambda>e. projr (delta_item (index_by_id (snapshot_get example_previous ''campaign'')) e))
             (index_by_id (snapshot_get example_current ''campaign'')))"
    by (simp add: get_intraday_def verify_api_key_def intraday_try_def order_by_ts_desc_limit_def
        example_db_def less_eq_prod_def less_prod_def example_current_def example_previous_def
        snapshot_get_def index_by_id_def delta_item_def dict_get_def float_truediv_def)
  from cpl_window_guarded [OF refl h, of "''key''" example_db]
  obtain result where r: "get_intraday ''key'' ''campaign'' ''key'' example_db = Inr result"
    "\<forall>r \<in> set result.
        (\<forall>x. 0 < conv_30m r \<and> spend_30m r = Fin x \<longrightarrow>
           cpl_30m r = Some (Fin (x / real_of_int (conv_30m r)))) \<and>
        (conv_30m r \<le> 0 \<longrightarrow> cpl_30m r = None)"
    by blast
  have sp: "map spend_30m result = [Fin (- 10), Fin 50]" and cv: "map conv_30m result = [2, 0]"
    using r(1) unfolding run
    by (auto simp: example_current_def example_previous_def snapshot_get_def index_by_id_def
        delta_item_def dict_get_def float_truediv_def)
  then obtain rx ry where res: "result = [rx, ry]"
    by auto
  have "cpl_30m rx = Some (Fin (- 5))" and "cpl_30m ry = None"
    using r(2) sp cv unfolding res by auto
  then show ?thesis
    using h r(1) cv res by simp
qed

lemma order_by_single: "order_by_ts_desc_limit [(k, snap)] 2 = [snap]"
  by (simp add: order_by_ts_desc_limit_def)

text \<open>
  C2, as amended. With exactly one snapshot in the collection, the result has one record per
  id of that snapshot's level, and in each record \<open>spend_30m = spend_today\<close> and
  \<open>conv_30m = conv_today\<close>, while \<open>cpl_30m\<close> is what the spend-based fallback of
  \<open>calculate_cpl\<close> gives on the cumulative values; it equals \<open>cpl_today\<close> when that
  was derived by the fallback.
\<close>

theorem single_snapshot_windows:
  assumes "x_api_key = API_KEY" and "level \<in> set [''campaign'', ''adset'', ''ad'']"
  shows "\<exists>result. get_intraday API_KEY level x_api_key [(k, snap)] = Inr result \<and>
      map metric_id result = map fst (index_by_id (snapshot_get snap level)) \<and>
      distinct (map metric_id result) \<and>
      set (map metric_id result) = item_id ` set (snapshot_get snap level) \<and>
      (\<forall>r \<in> set result.
         spend_30m r = spend_today r \<and>
         conv_30m r = conv_today r \<and>
         calculate_cpl (spend_today r) (conv_today r) None = Inr (cpl_30m r) \<and>
         (calculate_cpl (spend_today r) (conv_today r) None = Inr (cpl_today r) \<longrightarrow>
            cpl_30m r = cpl_today r))"
proof -
  let ?idx = "index_by_id (snapshot_get snap level)"
  let ?g = "\<lambda>e. projr (delta_item [] e)"
  let ?result = "map ?g ?idx"
  have rows: "intraday_try level [(k, snap)] = Inr ?result"
    using intraday_try_rows [OF order_by_single, of level k snap] by simp
  have run: "get_intraday API_KEY level x_api_key [(k, snap)] = Inr ?result"
    using assms rows by (rule get_intraday_authorized)
  have g_id: "metric_id (?g e) = fst e" for e
    using delta_item_result [of "[]" "fst e" "snd e"] by auto
  have ids: "map metric_id ?result = map fst ?idx"
    by (simp add: g_id)
  have dist: "distinct (map metric_id ?result)"
    unfolding ids by (rule index_by_id_distinct)
  have keys: "set (map metric_id ?result) = item_id ` set (snapshot_get snap level)"
    unfolding ids by (simp add: index_by_id_keys)
  have each: "spend_30m r = spend_today r \<and>
         conv_30m r = conv_today r \<and>
         calculate_cpl (spend_today r) (conv_today r) None = Inr (cpl_30m r) \<and>
         (calculate_cpl (spend_today r) (conv_today r) None = Inr (cpl_today r) \<longrightarrow>
            cpl_30m r = cpl_today r)"
    if "r \<in> set ?result" for r
  proof -
    from that obtain e where r: "r = ?g e"
      by auto
    obtain m where m: "delta_item [] (fst e, snd e) = Inr m"
      "spend_today m = item_spend (snd e)" "conv_today m = item_conv (snd e)"
      "spend_30m m = float_sub (item_spend (snd e)) (Fin 0)"
      "conv_30m m = item_conv (snd e) - 0"
      "0 < conv_30m m \<longrightarrow>
          (\<exists>q. float_truediv (spend_30m m) (conv_30m m) = Inr q \<and> cpl_30m m = Some q)"
      "conv_30m m \<le> 0 \<longrightarrow> cpl_30m m = None"
      using delta_item_result [of "[]" "fst e" "snd e"] by (auto simp: dict_get_def)
    have rm: "r = m"
      using r m(1) by simp
    have a: "spend_30m m = spend_today m" and b: "conv_30m m = conv_today m"
      using m(2,3,4,5) by (simp_all add: float_sub_zero)
    have c: "calculate_cpl (spend_today m) (conv_today m) None = Inr (cpl_30m m)"
      using m(6,7) unfolding a b by (auto simp: calculate_cpl_def)
    show ?thesis
      unfolding rm using a b c by simp
  qed
  show ?thesis
    using run ids dist keys each by blast
qed

theorem single_snapshot_windows_witness:
  "''campaign'' \<in> set [''campaign'', ''adset'', ''ad''] \<and>
   (\<exists>result. get_intraday ''key'' ''campaign'' ''key'' [(''20240501_1230'', example_current)] = Inr result \<and>
      map metric_id result = [Some ''X'', Some ''Y''] \<and>
      map spend_30m result = map spend_today result \<and>
      map conv_30m result = map conv_today result)"
proof -
  have h: "''campaign'' \<in> set [''campaign'', ''adset'', ''ad'']"
    by simp
  have idx: "map fst (index_by_id (snapshot_get example_current ''campaign'')) = [Some ''X'', Some ''Y'']"
    by (simp add: index_by_id_def snapshot_get_def example_current_def)
  from single_snapshot_windows [OF refl h, of "''key''" "''20240501_1230''" example_current]
  obtain result where
    r: "get_intraday ''key'' ''campaign'' ''key'' [(''20240501_1230'', example_current)] = Inr result"
      "map metric_id result = map fst (index_by_id (snapshot_get example_current ''campaign''))"
      "\<forall>r \<in> set result. spend_30m r = spend_today r \<and> conv_30m r = conv_today r"
    by blast
  show ?thesis
    using h r idx by auto
qed

text \<open>
  C2, as stated, fails when the Graph API reports its own cost per action: a collection
  cycle stores \<open>cpl = 7\<close> for a row with spend 10 and 2 conversions, and the intraday
  view of that single snapshot has \<open>cpl_today = 7\<close> but \<open>cpl_30m = 5\<close>.
\<close>

theorem single_snapshot_cpl_counterexample:
  "collect ''key'' (campaigns_only [reported_cpa_row]) example_now ''key'' [] =
     (Inr \<lparr>status = ''success'', doc_id = ''20240501_1230'',
           counts_campaigns = 1, counts_adsets = 0, counts_ads = 0\<rparr>,
      [(''20240501_1230'',
        \<lparr>ts = ''2024-05-01T12:30:00+00:00'', date = ''2024-05-01'',
         campaign =
           [\<lparr>item_id = Some ''c1'', item_name = ''name'', item_campaign_id = None,
             item_adset_id = None, item_spend = Fin 10, item_conv = 2,
             item_cpl = Some (Fin 7)\<rparr>],
         adset = [], ad = []\<rparr>)]) \<and>
   get_intraday ''key'' ''campaign'' ''key''
     (snd (collect ''key'' (campaigns_only [reported_cpa_row]) example_now ''key'' [])) =
     Inr [\<lparr>metric_id = Some ''c1'', metric_name = ''name'', campaign_id = None, adset_id = None,
           spend_today = Fin 10, conv_today = 2, cpl_today = Some (Fin 7),
           spend_30m = Fin 10, conv_30m = 2, cpl_30m = Some (Fin 5)\<rparr>] \<and>
   Some (Fin 5) \<noteq> Some (Fin (7::real))"
proof -
  have two: "float_of_str ''2'' = Inr (Fin 2)" and ten: "float_of_str ''10'' = Inr (Fin 10)"
    and seven: "float_of_str ''7'' = Inr (Fin 7)"
    by (simp_all add: float_of_str_eval)
  have row: "campaign_item reported_cpa_row =
      Inr \<lparr>item_id = Some ''c1'', item_name = ''name'', item_campaign_id = None,
           item_adset_id = None, item_spend = Fin 10, item_conv = 2, item_cpl = Some (Fin 7)\<rparr>"
    by (simp add: campaign_item_def row_metrics_def reported_cpa_row_def campaign_row_def
        target_entry_def get_default_def extract_action_value_def extract_cost_per_action_def
        calculate_cpl_def two ten seven)
  have c: "collect ''key'' (campaigns_only [reported_cpa_row]) example_now ''key'' [] =
     (Inr \<lparr>status = ''success'', doc_id = ''20240501_1230'',
           counts_campaigns = 1, counts_adsets = 0, counts_ads = 0\<rparr>,
      [(''20240501_1230'',
        \<lparr>ts = ''2024-05-01T12:30:00+00:00'', date = ''2024-05-01'',
         campaign =
           [\<lparr>item_id = Some ''c1'', item_name = ''name'', item_campaign_id = None,
             item_adset_id = None, item_spend = Fin 10, item_conv = 2,
             item_cpl = Some (Fin 7)\<rparr>],
         adset = [], ad = []\<rparr>)])"
    by (simp add: collect_def verify_api_key_def collect_try_def get_meta_insights_def
        campaigns_only_def row example_now_def document_set_def)
  show ?thesis
    unfolding c
    by (simp add: get_intraday_def verify_api_key_def intraday_try_def order_by_ts_desc_limit_def
        snapshot_get_def index_by_id_def delta_item_def dict_get_def float_truediv_def Let_def)
qed

section \<open>The derived cost per conversion\<close>

text \<open>
  C6, as amended. When spend and conversions are non-negative and the reported
  cost-per-action, if there is one, is non-negative too, \<open>calculate_cpl\<close> returns a value
  that is never negative, and it returns null exactly when conversions are 0 and no
  cost-per-action is reported.
\<close>

theorem cost_per_conversion_nonneg:
  assumes "float_nonneg spend" and "0 \<le> conv" and "\<forall>c. cpa = Some c \<longrightarrow> float_nonneg c"
  shows "\<exists>r. calculate_cpl spend conv cpa = Inr r \<and>
           (\<forall>v. r = Some v \<longrightarrow> float_nonneg v) \<and>
           (r = None \<longleftrightarrow> conv = 0 \<and> cpa = None)"
proof (cases cpa)
  case (Some c)
  with assms(3) show ?thesis
    by (simp add: calculate_cpl_def)
next
  case None
  show ?thesis
  proof (cases "0 < conv")
    case True
    have "float_nonneg (case spend of
                  Fin x \<Rightarrow> Fin (x / real_of_int conv)
                | PosInf \<Rightarrow> (if 0 < conv then PosInf else NegInf)
                | NegInf \<Rightarrow> (if 0 < conv then NegInf else PosInf)
                | NaN \<Rightarrow> NaN)"
      using assms(1) True by (cases spend) simp_all
    with None True show ?thesis
      by (simp add: calculate_cpl_def float_truediv_def)
  next
    case False
    with None assms(2) show ?thesis
      by (simp add: calculate_cpl_def)
  qed
qed

theorem cost_per_conversion_nonneg_witness:
  "float_nonneg (Fin 100) \<and> (0::int) \<le> 5 \<and>
   (\<exists>r. calculate_cpl (Fin 100) 5 None = Inr r \<and> (\<forall>v. r = Some v \<longrightarrow> float_nonneg v) \<and>
        r \<noteq> None)"
proof -
  have h1: "float_nonneg (Fin 100)" and h2: "(0::int) \<le> 5"
    and h3: "\<forall>c. (None :: pyfloat option) = Some c \<longrightarrow> float_nonneg c"
    by simp_all
  show ?thesis
    using h1 h2 cost_per_conversion_nonneg [OF h1 h2 h3] by simp
qed

text \<open>
  C6, as stated, fails on a row whose reported cost-per-action is negative: spend 10 and
  0 conversions are non-negative, and the record's \<open>cpl\<close> is the reported \<open>-1\<close>.
\<close>

theorem negative_reported_cost_counterexample:
  "campaign_item negative_cpa_row =
     Inr \<lparr>item_id = Some ''c5'', item_name = ''name'', item_campaign_id = None,
          item_adset_id = None, item_spend = Fin 10, item_conv = 0,
          item_cpl = Some (Fin (- 1))\<rparr> \<and>
   float_nonneg (Fin 10) \<and> \<not> float_nonneg (Fin (- 1))"
proof -
  have ten: "float_of_str ''10'' = Inr (Fin 10)" and neg: "float_of_str ''-1'' = Inr (Fin (- 1))"
    by (simp_all add: float_of_str_eval)
  show ?thesis
    by (simp add: campaign_item_def row_metrics_def negative_cpa_row_def campaign_row_def
        target_entry_def get_default_def extract_action_value_def extract_cost_per_action_def
        calculate_cpl_def ten neg)
qed

lemma extract_cost_per_action_loop_find:
  "find (\<lambda>a. action_type a = Some t) items = Some a \<Longrightarrow>
     extract_cost_per_action_loop items t =
       (case py_float (get_default (action_value a) (PyInt 0)) of
          Inl e \<Rightarrow> Inl e
        | Inr f \<Rightarrow> Inr (Some f))"
  by (induction items) (auto split: if_splits)

text \<open>
  C10, as amended. When the first entry of the cost-per-action list whose
  \<open>action_type\<close> is the target has no \<open>value\<close>, the extraction returns 0.0, and
  \<open>calculate_cpl\<close> returns that 0.0 whatever spend and conversions are: the spend-based
  fallback is not applied.
\<close>

theorem missing_value_costs_zero:
  assumes "find (\<lambda>a. action_type a = Some t) items = Some a" and "action_value a = None"
  shows "extract_cost_per_action items t = Inr (Some (Fin 0)) \<and>
         calculate_cpl spend conv (Some (Fin 0)) = Inr (Some (Fin 0))"
proof -
  have "items \<noteq> []"
    using assms(1) by auto
  then have "extract_cost_per_action items t = extract_cost_per_action_loop items t"
    by (simp add: extract_cost_per_action_def)
  also have "\<dots> = Inr (Some (Fin 0))"
    using extract_cost_per_action_loop_find [OF assms(1)] assms(2)
    by (simp add: get_default_def)
  finally show ?thesis
    by (simp add: calculate_cpl_def)
qed

theorem missing_value_costs_zero_witness:
  "find (\<lambda>a. action_type a = Some ACTION_TYPE) [target_entry None] = Some (target_entry None) \<and>
   action_value (target_entry None) = None \<and>
   extract_cost_per_action [target_entry None] ACTION_TYPE = Inr (Some (Fin 0)) \<and>
   calculate_cpl (Fin 10) 2 (Some (Fin 0)) = Inr (Some (Fin 0))"
proof -
  have h1: "find (\<lambda>a. action_type a = Some ACTION_TYPE) [target_entry None] = Some (target_entry None)"
    and h2: "action_value (target_entry None) = None"
    by (simp_all add: target_entry_def)
  show ?thesis
    using h1 h2 missing_value_costs_zero [OF h1 h2, of "Fin 10" 2] by simp
qed

text \<open>
  C10, as stated, fails when a matching entry with a value comes before the matching
  entry without one: the scan returns at the first match.
\<close>

theorem later_missing_value_counterexample:
  "first_match_items ! 1 \<in> set first_match_items \<and>
   action_type (first_match_items ! 1) = Some ACTION_TYPE \<and>
   action_value (first_match_items ! 1) = None \<and>
   extract_cost_per_action first_match_items ACTION_TYPE = Inr (Some (Fin 5)) \<and>
   Fin 5 \<noteq> Fin 0"
proof -
  have five: "float_of_str ''5'' = Inr (Fin 5)"
    by (simp add: float_of_str_eval)
  show ?thesis
    by (simp add: first_match_items_def target_entry_def extract_cost_per_action_def
        get_default_def five)
qed

section \<open>Rows that do not normalize, and the sequences of a snapshot\<close>

lemma collect_try_Inl:
  "collect_try graph_api now db = (Inl e, db') \<Longrightarrow> db' = db"
  by (auto simp: collect_try_def Let_def split: sum.splits)

lemma collect_try_Inr:
  assumes "collect_try graph_api now db = (Inr resp, db')"
  shows "\<exists>campaigns adsets ads ci ai di.
      graph_api ''campaign'' ''today'' = Inr campaigns \<and>
      graph_api ''adset'' ''today'' = Inr adsets \<and>
      graph_api ''ad'' ''today'' = Inr ads \<and>
      for_append campaign_item campaigns [] = Inr ci \<and>
      for_append adset_item adsets [] = Inr ai \<and>
      for_append ad_item ads [] = Inr di \<and>
      db' = document_set db (strftime_YmdHM now)
              \<lparr>ts = isoformat now, date = strftime_Ymd now,
               campaign = ci, adset = ai, ad = di\<rparr>"
  using assms
  by (auto simp: collect_try_def get_meta_insights_def Let_def split: sum.splits)

lemma collect_Inl:
  "collect API_KEY graph_api now x_api_key db = (Inl e, db') \<Longrightarrow>
     db' = db \<and> e = HTTPException (if x_api_key = API_KEY then 500 else 401)"
  by (auto simp: collect_def verify_api_key_def split: if_splits sum.splits prod.splits
      dest: collect_try_Inl)

lemma collect_Inr:
  "collect API_KEY graph_api now x_api_key db = (Inr resp, db') \<Longrightarrow>
     collect_try graph_api now db = (Inr resp, db')"
  by (auto simp: collect_def verify_api_key_def split: if_splits sum.splits prod.splits)

lemma item_of_failed_row:
  "row_metrics row = Inl e \<Longrightarrow>
     campaign_item row = Inl e \<and> adset_item row = Inl e \<and> ad_item row = Inl e"
  by (simp add: campaign_item_def adset_item_def ad_item_def)

lemma item_ids:
  "campaign_item row = Inr it \<Longrightarrow> item_id it = raw_campaign_id row"
  "adset_item row = Inr it \<Longrightarrow> item_id it = raw_adset_id row"
  "ad_item row = Inr it \<Longrightarrow> item_id it = raw_ad_id row"
  by (auto simp: campaign_item_def adset_item_def ad_item_def split: sum.splits prod.splits)

lemma list_all2_map_eq:
  "list_all2 P xs ys \<Longrightarrow> (\<And>x y. P x y \<Longrightarrow> f y = g x) \<Longrightarrow> map f ys = map g xs"
  by (induction rule: list_all2_induct) simp_all

lemma for_append_ids:
  assumes "for_append body rows [] = Inr items"
    and "\<And>row it. body row = Inr it \<Longrightarrow> item_id it = key row"
  shows "map item_id items = map key rows"
proof -
  have "list_all2 (\<lambda>x y. body x = Inr y) rows items"
    using assms(1) by (simp add: for_append_Inr_iff)
  then show ?thesis
    by (rule list_all2_map_eq) (rule assms(2))
qed

lemma collect_bad_row:
  assumes "level \<in> set [''campaign'', ''adset'', ''ad'']"
    and "graph_api level ''today'' = Inr rows" and "row \<in> set rows"
    and "row_metrics row = Inl e"
  shows "collect API_KEY graph_api now x_api_key db =
           (Inl (HTTPException (if x_api_key = API_KEY then 500 else 401)), db)"
proof (cases "collect API_KEY graph_api now x_api_key db")
  case (Pair r db')
  show ?thesis
  proof (cases r)
    case (Inl e')
    with Pair collect_Inl show ?thesis by fastforce
  next
    case (Inr resp)
    with Pair have "collect_try graph_api now db = (Inr resp, db')"
      by (simp add: collect_Inr)
    then obtain campaigns adsets ads ci ai di where ok:
      "graph_api ''campaign'' ''today'' = Inr campaigns"
      "graph_api ''adset'' ''today'' = Inr adsets"
      "graph_api ''ad'' ''today'' = Inr ads"
      "for_append campaign_item campaigns [] = Inr ci"
      "for_append adset_item adsets [] = Inr ai"
      "for_append ad_item ads [] = Inr di"
      using collect_try_Inr by blast
    have bad: "campaign_item row = Inl e" "adset_item row = Inl e" "ad_item row = Inl e"
      using item_of_failed_row [OF assms(4)] by simp_all
    consider "level = ''campaign''" | "level = ''adset''" | "level = ''ad''"
      using assms(1) by auto
    then have False
    proof cases
      case 1
      with assms(2,3) ok(1) have "row \<in> set campaigns" by simp
      then have "\<exists>e'. for_append campaign_item campaigns [] = Inl e'"
        using bad(1) by (rule for_append_Inl)
      then show False
        using ok(4) by simp
    next
      case 2
      with assms(2,3) ok(2) have "row \<in> set adsets" by simp
      then have "\<exists>e'. for_append adset_item adsets [] = Inl e'"
        using bad(2) by (rule for_append_Inl)
      then show False
        using ok(5) by simp
    next
      case 3
      with assms(2,3) ok(3) have "row \<in> set ads" by simp
      then have "\<exists>e'. for_append ad_item ads [] = Inl e'"
        using bad(3) by (rule for_append_Inl)
      then show False
        using ok(6) by simp
    qed
    then show ?thesis ..
  qed
qed

text \<open>
  C5, as amended. For a row that the Graph API returns at one of the three levels: when
  the spend is absent the normalized spend is 0; when it is present and \<open>float()\<close>
  accepts it, the normalized spend is that float, whatever its sign; when \<open>float()\<close>
  raises, the row's normalization raises the same exception and \<open>collect\<close> ends with
  status 500 (401 when the key is wrong) and leaves the collection of snapshots as it was.
\<close>

theorem spend_coercion:
  assumes "level \<in> set [''campaign'', ''adset'', ''ad'']"
    and "graph_api level ''today'' = Inr rows" and "row \<in> set rows"
  shows
    "(raw_spend row = None \<longrightarrow>
        (\<forall>s c l. row_metrics row = Inr (s, c, l) \<longrightarrow> s = Fin 0)) \<and>
     (\<forall>v f. raw_spend row = Some v \<and> py_float v = Inr f \<longrightarrow>
        (\<forall>s c l. row_metrics row = Inr (s, c, l) \<longrightarrow> s = f)) \<and>
     (\<forall>v e. raw_spend row = Some v \<and> py_float v = Inl e \<longrightarrow>
        row_metrics row = Inl e \<and>
        collect API_KEY graph_api now x_api_key db =
          (Inl (HTTPException (if x_api_key = API_KEY then 500 else 401)), db))"
proof -
  have absent: "s = Fin 0" if "raw_spend row = None" "row_metrics row = Inr (s, c, l)" for s c l
    using that by (auto simp: row_metrics_def get_default_def Let_def split: sum.splits)
  have parsed: "s = f"
    if "raw_spend row = Some v" "py_float v = Inr f" "row_metrics row = Inr (s, c, l)" for v f s c l
    using that by (auto simp: row_metrics_def get_default_def Let_def split: sum.splits)
  have raised: "row_metrics row = Inl e" if "raw_spend row = Some v" "py_float v = Inl e" for v e
    using that by (simp add: row_metrics_def get_default_def)
  have aborted: "collect API_KEY graph_api now x_api_key db =
      (Inl (HTTPException (if x_api_key = API_KEY then 500 else 401)), db)"
    if "raw_spend row = Some v" "py_float v = Inl e" for v e
    using assms raised [OF that] by (rule collect_bad_row)
  show ?thesis
    using absent parsed raised aborted by blast
qed

theorem spend_coercion_witness:
  "''campaign'' \<in> set [''campaign'', ''adset'', ''ad''] \<and>
   campaigns_only [no_spend_row, malformed_spend_row] ''campaign'' ''today'' =
     Inr [no_spend_row, malformed_spend_row] \<and>
   raw_spend no_spend_row = None \<and>
   row_metrics no_spend_row = Inr (Fin 0, 0, None) \<and>
   raw_spend malformed_spend_row = Some (PyStr ''abc'') \<and>
   py_float (PyStr ''abc'') = Inl ValueError \<and>
   row_metrics malformed_spend_row = Inl ValueError \<and>
   collect ''key'' (campaigns_only [no_spend_row, malformed_spend_row]) example_now ''key'' [] =
     (Inl (HTTPException 500), [])"
proof -
  let ?api = "campaigns_only [no_spend_row, malformed_spend_row]"
  have h1: "''campaign'' \<in> set [''campaign'', ''adset'', ''ad'']"
    by simp
  have h2: "?api ''campaign'' ''today'' = Inr [no_spend_row, malformed_spend_row]"
    by (simp add: campaigns_only_def)
  have in1: "no_spend_row \<in> set [no_spend_row, malformed_spend_row]"
    and in2: "malformed_spend_row \<in> set [no_spend_row, malformed_spend_row]"
    by simp_all
  have a: "raw_spend no_spend_row = None"
    by (simp add: no_spend_row_def campaign_row_def)
  have b: "raw_spend malformed_spend_row = Some (PyStr ''abc'')"
    by (simp add: malformed_spend_row_def campaign_row_def)
  have c: "py_float (PyStr ''abc'') = Inl ValueError"
    by (simp add: float_of_str_eval)
  have ok: "\<exists>s c l. row_metrics no_spend_row = Inr (s, 0, None)"
    by (simp add: row_metrics_def no_spend_row_def campaign_row_def get_default_def
        extract_action_value_def extract_cost_per_action_def calculate_cpl_def)
  have "row_metrics no_spend_row = Inr (Fin 0, 0, None)"
    using ok a h1 h2 in1
      spend_coercion [of "''campaign''" ?api "[no_spend_row, malformed_spend_row]" no_spend_row
        "''key''" example_now "''key''" "[]"]
    by auto
  moreover have "row_metrics malformed_spend_row = Inl ValueError \<and>
      collect ''key'' ?api example_now ''key'' [] = (Inl (HTTPException 500), [])"
    using b c h1 h2 in2
      spend_coercion [of "''campaign''" ?api "[no_spend_row, malformed_spend_row]"
        malformed_spend_row "''key''" example_now "''key''" "[]"]
    by simp
  ultimately show ?thesis
    using h1 h2 a b c by simp
qed

text \<open>
  C5, as stated, fails twice: the spend \<open>"abc"\<close> raises \<open>ValueError\<close> and, next to a
  well-formed row, fails the whole collection cycle with status 500 and nothing written;
  and the spend \<open>"-5"\<close> is normalized to the negative float \<open>-5.0\<close>.
\<close>

theorem malformed_spend_counterexample:
  "raw_spend malformed_spend_row = Some (PyStr ''abc'') \<and>
   row_metrics malformed_spend_row = Inl ValueError \<and>
   collect ''key'' (campaigns_only [reported_cpa_row, malformed_spend_row]) example_now ''key'' [] =
     (Inl (HTTPException 500), []) \<and>
   raw_spend negative_spend_row = Some (PyStr ''-5'') \<and>
   row_metrics negative_spend_row = Inr (Fin (- 5), 0, None) \<and>
   \<not> float_nonneg (Fin (- 5))"
proof -
  have abc: "float_of_str ''abc'' = Inl ValueError" and neg: "float_of_str ''-5'' = Inr (Fin (- 5))"
    and two: "float_of_str ''2'' = Inr (Fin 2)" and ten: "float_of_str ''10'' = Inr (Fin 10)"
    and seven: "float_of_str ''7'' = Inr (Fin 7)"
    by (simp_all add: float_of_str_eval)
  have bad: "row_metrics malformed_spend_row = Inl ValueError"
    by (simp add: row_metrics_def malformed_spend_row_def campaign_row_def get_default_def abc)
  have good: "\<exists>it. campaign_item reported_cpa_row = Inr it"
    by (simp add: campaign_item_def row_metrics_def reported_cpa_row_def campaign_row_def
        target_entry_def get_default_def extract_action_value_def extract_cost_per_action_def
        calculate_cpl_def two ten seven)
  then obtain it where it: "campaign_item reported_cpa_row = Inr it" ..
  have bad_item: "campaign_item malformed_spend_row = Inl ValueError"
    by (simp add: campaign_item_def bad)
  have "collect ''key'' (campaigns_only [reported_cpa_row, malformed_spend_row]) example_now ''key'' [] =
     (Inl (HTTPException 500), [])"
    by (simp add: collect_def verify_api_key_def collect_try_def get_meta_insights_def
        campaigns_only_def it bad_item)
  moreover have "row_metrics negative_spend_row = Inr (Fin (- 5), 0, None)"
    by (simp add: row_metrics_def negative_spend_row_def campaign_row_def get_default_def neg
        extract_action_value_def extract_cost_per_action_def calculate_cpl_def)
  ultimately show ?thesis
    using bad by (simp add: malformed_spend_row_def negative_spend_row_def campaign_row_def)
qed

text \<open>
  C7, as amended. A successful \<open>collect\<close> stores a snapshot whose three sequences have
  one record per row of the source, in the source's order, with the row's id: an id that
  the source repeats is repeated in the sequence. Ids are unique in the index that
  \<open>get_intraday\<close> builds from a level's sequence, where the last record of an id wins.
\<close>

theorem snapshot_ids_follow_source:
  assumes "collect API_KEY graph_api now x_api_key db = (Inr resp, db')"
  shows "\<exists>campaigns adsets ads snap.
      graph_api ''campaign'' ''today'' = Inr campaigns \<and>
      graph_api ''adset'' ''today'' = Inr adsets \<and>
      graph_api ''ad'' ''today'' = Inr ads \<and>
      db' = document_set db (strftime_YmdHM now) snap \<and>
      dict_get db' (strftime_YmdHM now) = Some snap \<and>
      map item_id (campaign snap) = map raw_campaign_id campaigns \<and>
      map item_id (adset snap) = map raw_adset_id adsets \<and>
      map item_id (ad snap) = map raw_ad_id ads \<and>
      (\<forall>level.
         distinct (map fst (index_by_id (snapshot_get snap level))) \<and>
         (\<forall>k. dict_get (index_by_id (snapshot_get snap level)) k =
               find (\<lambda>it. item_id it = k) (rev (snapshot_get snap level))))"
proof -
  have "collect_try graph_api now db = (Inr resp, db')"
    using assms by (rule collect_Inr)
  then obtain campaigns adsets ads ci ai di where ok:
    "graph_api ''campaign'' ''today'' = Inr campaigns"
    "graph_api ''adset'' ''today'' = Inr adsets"
    "graph_api ''ad'' ''today'' = Inr ads"
    "for_append campaign_item campaigns [] = Inr ci"
    "for_append adset_item adsets [] = Inr ai"
    "for_append ad_item ads [] = Inr di"
    "db' = document_set db (strftime_YmdHM now)
              \<lparr>ts = isoformat now, date = strftime_Ymd now,
               campaign = ci, adset = ai, ad = di\<rparr>"
    using collect_try_Inr by blast
  let ?snap = "\<lparr>ts = isoformat now, date = strftime_Ymd now,
               campaign = ci, adset = ai, ad = di\<rparr>"
  have stored: "dict_get db' (strftime_YmdHM now) = Some ?snap"
    unfolding ok(7) document_set_def by (simp add: dict_get_dict_set)
  have c: "map item_id (campaign ?snap) = map raw_campaign_id campaigns"
    using for_append_ids [OF ok(4) item_ids(1)] by simp
  have a: "map item_id (adset ?snap) = map raw_adset_id adsets"
    using for_append_ids [OF ok(5) item_ids(2)] by simp
  have d: "map item_id (ad ?snap) = map raw_ad_id ads"
    using for_append_ids [OF ok(6) item_ids(3)] by simp
  have idx: "\<forall>level.
         distinct (map fst (index_by_id (snapshot_get ?snap level))) \<and>
         (\<forall>k. dict_get (index_by_id (snapshot_get ?snap level)) k =
               find (\<lambda>it. item_id it = k) (rev (snapshot_get ?snap level)))"
    by (simp add: index_by_id_distinct index_by_id_get)
  show ?thesis
    using ok(1,2,3,7) stored c a d idx by blast
qed

theorem snapshot_ids_follow_source_witness:
  "\<exists>resp db'. collect ''key'' (campaigns_only repeated_id_rows) example_now ''key'' [] = (Inr resp, db') \<and>
     (\<exists>snap. dict_get db' ''20240501_1230'' = Some snap \<and>
        map item_id (campaign snap) = [Some ''c1'', Some ''c1''] \<and>
        map item_id (adset snap) = [] \<and>
        distinct (map fst (index_by_id (snapshot_get snap ''campaign''))))"
proof -
  have one: "float_of_str ''1'' = Inr (Fin 1)" and two: "float_of_str ''2'' = Inr (Fin 2)"
    by (simp_all add: float_of_str_eval)
  have "\<exists>resp db'. collect ''key'' (campaigns_only repeated_id_rows) example_now ''key'' [] = (Inr resp, db')"
    by (simp add: collect_def verify_api_key_def collect_try_def get_meta_insights_def
        campaigns_only_def repeated_id_rows_def campaign_item_def row_metrics_def campaign_row_def
        get_default_def extract_action_value_def extract_cost_per_action_def calculate_cpl_def
        one two)
  then obtain resp db' where run:
    "collect ''key'' (campaigns_only repeated_id_rows) example_now ''key'' [] = (Inr resp, db')"
    by blast
  from snapshot_ids_follow_source [OF run]
  obtain campaigns adsets snap where s:
    "campaigns_only repeated_id_rows ''campaign'' ''today'' = Inr campaigns"
    "campaigns_only repeated_id_rows ''adset'' ''today'' = Inr adsets"
    "dict_get db' (strftime_YmdHM example_now) = Some snap"
    "map item_id (campaign snap) = map raw_campaign_id campaigns"
    "map item_id (adset snap) = map raw_adset_id adsets"
    "distinct (map fst (index_by_id (snapshot_get snap ''campaign'')))"
    by blast
  have "campaigns = repeated_id_rows" and "adsets = []"
    using s(1,2) by (simp_all add: campaigns_only_def)
  then have "map item_id (campaign snap) = [Some ''c1'', Some ''c1'']" and "map item_id (adset snap) = []"
    using s(4,5) by (simp_all add: repeated_id_rows_def campaign_row_def)
  moreover have "dict_get db' ''20240501_1230'' = Some snap"
    using s(3) by (simp add: example_now_def)
  ultimately have inner: "dict_get db' ''20240501_1230'' = Some snap \<and>
        map item_id (campaign snap) = [Some ''c1'', Some ''c1''] \<and>
        map item_id (adset snap) = [] \<and>
        distinct (map fst (index_by_id (snapshot_get snap ''campaign'')))"
    using s(6) by - (rule conjI | assumption)+
  show ?thesis
    apply (rule exI [of _ resp])
    apply (rule exI [of _ db'])
    apply (rule conjI)
     apply (rule run)
    apply (rule exI [of _ snap])
    apply (rule inner)
    done
qed

text \<open>
  C7, as stated, fails when the source repeats an id: both records are stored, the first
  write next to the last.
\<close>

theorem repeated_ids_counterexample:
  "snd (collect ''key'' (campaigns_only repeated_id_rows) example_now ''key'' []) =
     [(''20240501_1230'',
       \<lparr>ts = ''2024-05-01T12:30:00+00:00'', date = ''2024-05-01'',
        campaign =
          [\<lparr>item_id = Some ''c1'', item_name = ''name'', item_campaign_id = None,
            item_adset_id = None, item_spend = Fin 1, item_conv = 0, item_cpl = None\<rparr>,
           \<lparr>item_id = Some ''c1'', item_name = ''name'', item_campaign_id = None,
            item_adset_id = None, item_spend = Fin 2, item_conv = 0, item_cpl = None\<rparr>],
        adset = [], ad = []\<rparr>)] \<and>
   \<not> distinct [Some ''c1'', Some ''c1'']"
proof -
  have one: "float_of_str ''1'' = Inr (Fin 1)" and two: "float_of_str ''2'' = Inr (Fin 2)"
    by (simp_all add: float_of_str_eval)
  show ?thesis
    by (simp add: collect_def verify_api_key_def collect_try_def get_meta_insights_def
        campaigns_only_def repeated_id_rows_def campaign_item_def row_metrics_def campaign_row_def
        get_default_def extract_action_value_def extract_cost_per_action_def calculate_cpl_def
        one two example_now_def document_set_def)
qed

end
